theory Spec2Isabelle
  imports Main "HOL-Library.Word" "HOL-Library.Char_ord" "HOL-Library.List_Lexorder"
begin

unbundle bit_operations_syntax

section \<open>Values, errors and collaborators\<close>

text \<open>
  The module \<^verbatim>\<open>llm/embeddings.py\<close> defines the class \<^verbatim>\<open>Collection\<close>: a handle on a
  named group of embeddings kept in two SQLite tables. The handle is modelled as a record,
  the database as a record of its two tables, and every method as a function that takes
  the handle and the database and returns its result together with the handle and the
  database as the method leaves them. An exception is the left summand of the result.

  A float is represented by its IEEE-754 single-precision bit pattern, a vector by the list
  of its elements and a BLOB by its bytes. The rounding of a Python double to single
  precision on packing is outside the model.
\<close>

type_synonym float32 = "32 word"
type_synonym vector = "float32 list"
type_synonym blob = "8 word list"

text \<open>
  The exceptions the module raises or lets through. \<open>ValueError\<close> carries the message of
  the source; \<open>IntegrityError\<close> is SQLite's refusal of a duplicate key, and its
  error (datatype mismatch) for a \<^verbatim>\<open>LIMIT\<close> that is no signed 64-bit integer;
  \<open>OperationalError\<close> is SQLite's error for a missing table and for a registered function
  that raised; \<open>StructError\<close> is the failure of \<^verbatim>\<open>struct.unpack\<close> in the codec.
\<close>

datatype error =
    ValueError string
  | NotImplementedError
  | IntegrityError
  | OperationalError
  | StructError

text \<open>
  An embedding model (\<^verbatim>\<open>llm.models.EmbeddingModel\<close>) is used through its attribute
  \<^verbatim>\<open>model_id\<close> and its method \<^verbatim>\<open>embed\<close> only. The registry is the function
  \<^verbatim>\<open>llm.get_embedding_model\<close>, taken as a parameter: \<open>None\<close> is its
  \<^verbatim>\<open>UnknownModelError\<close>. Its argument is the handle's \<^verbatim>\<open>_model_id\<close>, which may be
  \<^verbatim>\<open>None\<close>.
\<close>

record EmbeddingModel =
  model_id :: string
  embed :: "string \<Rightarrow> vector"

type_synonym registry = "string option \<Rightarrow> EmbeddingModel option"

text \<open>
  The scoring function \<^verbatim>\<open>llm.cosine_similarity\<close> is a parameter as well. Its result type
  is any linear order (the order SQLite sorts the score column by); \<open>None\<close> is an
  exception raised while scoring.
\<close>

type_synonym 's scorer = "vector \<Rightarrow> vector \<Rightarrow> 's option"

type_synonym metadata = "(string \<times> string) list"

subsection \<open>The vector codec\<close>

text \<open>
  Modelled from the spec: \<^verbatim>\<open>llm.encode\<close> and \<^verbatim>\<open>llm.decode\<close> are imported by the
  module and defined outside it. Section 4.1 of the specification gives their contract:
  \<open>encode\<close> writes each element as an IEEE-754 single-precision value in input order,
  with no separator, length prefix or header; \<open>decode\<close> reads the blob as a contiguous
  run of 4-byte little-endian floats and fails if the length is not a multiple of 4.
\<close>

definition float_bytes :: "float32 \<Rightarrow> blob" where
  "float_bytes w =
     [ucast w, ucast (drop_bit 8 w), ucast (drop_bit 16 w), ucast (drop_bit 24 w)]"

definition bytes_float :: "8 word \<Rightarrow> 8 word \<Rightarrow> 8 word \<Rightarrow> 8 word \<Rightarrow> float32" where
  "bytes_float a b c d =
     ucast a OR push_bit 8 (ucast b) OR push_bit 16 (ucast c) OR push_bit 24 (ucast d)"

definition encode :: "vector \<Rightarrow> blob" where
  "encode values = concat (map float_bytes values)"

fun decode :: "blob \<Rightarrow> error + vector" where
  "decode [] = Inr []"
| "decode (a # b # c # d # rest) =
     (case decode rest of
        Inl e \<Rightarrow> Inl e
      | Inr values \<Rightarrow> Inr (bytes_float a b c d # values))"
| "decode _ = Inl StructError"

section \<open>The database\<close>

text \<open>
  The storage layout (section 6 of the specification; the migration that creates it is
  outside the module):
  \<^verbatim>\<open>collections(id PK, name UNIQUE, model)\<close> and
  \<^verbatim>\<open>embeddings(collection_id, id, embedding, content, metadata,
  PRIMARY KEY(collection_id, id))\<close>.
  A table is the list of its rows in storage order, and \<open>None\<close> when the table does not
  exist. The column \<^verbatim>\<open>id\<close> of either table is renamed, since \<open>id\<close> is the identity
  function of HOL. The \<^verbatim>\<open>metadata\<close> column holds the dictionary itself; its
  serialisation by \<^verbatim>\<open>json.dumps\<close> is not modelled.

  \<^verbatim>\<open>sqlite_utils\<close> creates a table that does not exist on the first \<^verbatim>\<open>insert\<close> into it,
  with columns taken from the record and no primary key. The table of embeddings
  therefore records whether it has the primary key of the layout.
\<close>

record collection_row =
  row_id :: int
  row_name :: string
  row_model :: string

record embedding_row =
  collection_id :: int
  item_id :: string
  embedding :: blob
  content :: "string option"
  metadata :: "metadata option"

record embeddings_table =
  primary_key :: bool
  table_rows :: "embedding_row list"

record database =
  collections :: "collection_row list option"
  embeddings :: "embeddings_table option"

text \<open>
  Modelled from the spec: \<^verbatim>\<open>embeddings_migrations.apply\<close> is imported by the module and
  defined outside it. By sections 4.2 and 6 it is idempotent and creates the two tables
  only if they do not already exist.
\<close>

definition embeddings_migrations_apply :: "database \<Rightarrow> database" where
  "embeddings_migrations_apply db =
     db\<lparr>collections := Some (case collections db of None \<Rightarrow> [] | Some cs \<Rightarrow> cs),
        embeddings := Some (case embeddings db of
                              None \<Rightarrow> \<lparr>primary_key = True, table_rows = []\<rparr>
                            | Some t \<Rightarrow> t)\<rparr>"

text \<open>
  The key SQLite gives a row inserted into \<^verbatim>\<open>collections\<close> without one (\<^verbatim>\<open>last_pk\<close> of
  the insert): 1 in an empty table, else one more than the largest key in use. Keys are
  64-bit in SQLite: when the largest key in use is \<open>2\<^sup>6\<^sup>3 - 1\<close> it picks an unused key
  at random, which this function does not describe.
\<close>

definition new_rowid :: "collection_row list \<Rightarrow> int" where
  "new_rowid cs =
     (case cs of [] \<Rightarrow> 1 | r # rs \<Rightarrow> fold max (map row_id rs) (row_id r) + 1)"

text \<open>
  \<^verbatim>\<open>db["embeddings"].insert(record)\<close>: a plain \<^verbatim>\<open>INSERT\<close>. A row whose
  \<^verbatim>\<open>(collection_id, id)\<close> is already in a table with the primary key is refused and
  the table is left as it was.
\<close>

definition same_key :: "embedding_row \<Rightarrow> embedding_row \<Rightarrow> bool" where
  "same_key r r' \<longleftrightarrow> collection_id r' = collection_id r \<and> item_id r' = item_id r"

definition insert_embedding :: "embedding_row \<Rightarrow> database \<Rightarrow> error + database" where
  "insert_embedding r db =
     (case embeddings db of
        None \<Rightarrow> Inr (db\<lparr>embeddings := Some \<lparr>primary_key = False, table_rows = [r]\<rparr>\<rparr>)
      | Some t \<Rightarrow>
          if primary_key t \<and> list_ex (same_key r) (table_rows t) then Inl IntegrityError
          else Inr (db\<lparr>embeddings := Some (t\<lparr>table_rows := table_rows t @ [r]\<rparr>)\<rparr>))"

section \<open>The class Collection\<close>

text \<open>
  The attributes of a handle: \<^verbatim>\<open>name\<close>, \<^verbatim>\<open>_model\<close>, \<^verbatim>\<open>_model_id\<close> and \<^verbatim>\<open>_id\<close>
  (the attribute \<^verbatim>\<open>db\<close> is the database passed to every function below).
\<close>

record collection =
  self_name :: string
  self_model :: "EmbeddingModel option"
  self_model_id :: "string option"
  self_id :: "int option"

text \<open>
  Python's truth value of an optional string: \<^verbatim>\<open>None\<close> and the empty string are false.
\<close>

definition truthy :: "string option \<Rightarrow> bool" where
  "truthy s = (case s of None \<Rightarrow> False | Some t \<Rightarrow> t \<noteq> [])"

text \<open>
  \<^verbatim>\<open>Collection.model\<close> (lines 37 to 53). A model instance is true in Python, so
  \<^verbatim>\<open>if self._model\<close> tests that one is bound. A model found in the registry is cached.
\<close>

definition Collection_model ::
  "registry \<Rightarrow> collection \<Rightarrow> (error + EmbeddingModel) \<times> collection" where
  "Collection_model reg self =
     (case self_model self of
        Some m \<Rightarrow> (Inr m, self)
      | None \<Rightarrow>
          (case reg (self_model_id self) of
             None \<Rightarrow>
               (Inl (ValueError ''No model_id specified and no model found with that name''),
                self)
           | Some m \<Rightarrow> (Inr m, self\<lparr>self_model := Some m\<rparr>)))"

text \<open>
  \<^verbatim>\<open>Collection.id\<close> (lines 55 to 83). \<^verbatim>\<open>rows_where\<close> followed by \<^verbatim>\<open>next\<close> takes the
  first row with the name; \<^verbatim>\<open>StopIteration\<close> is the case of no such row. The dictionary
  of the insert is built before the insert runs, so a failure of \<^verbatim>\<open>self.model()\<close> leaves
  the table without the row. The insert cannot meet the unique index on \<^verbatim>\<open>name\<close>: it
  runs only after the lookup found no row of that name.
\<close>

definition Collection_id ::
  "registry \<Rightarrow> collection \<Rightarrow> database \<Rightarrow> (error + int) \<times> collection \<times> database" where
  "Collection_id reg self db =
     (case self_id self of
        Some i \<Rightarrow> (Inr i, self, db)
      | None \<Rightarrow>
          (let db1 = (if collections db = None then embeddings_migrations_apply db else db)
           in case collections db1 of
                None \<Rightarrow> (Inl OperationalError, self, db1)
              | Some cs \<Rightarrow>
                  (case find (\<lambda>row. row_name row = self_name self) cs of
                     Some row \<Rightarrow>
                       (Inr (row_id row),
                        self\<lparr>self_id := Some (row_id row),
                             self_model_id :=
                               (case self_model_id self of
                                  None \<Rightarrow> Some (row_model row)
                                | Some s \<Rightarrow> Some s)\<rparr>,
                        db1)
                   | None \<Rightarrow>
                       (case Collection_model reg self of
                          (Inl e, self1) \<Rightarrow> (Inl e, self1, db1)
                        | (Inr m, self1) \<Rightarrow>
                            (let pk = new_rowid cs
                             in (Inr pk, self1\<lparr>self_id := Some pk\<rparr>,
                                 db1\<lparr>collections :=
                                       Some (cs @ [\<lparr>row_id = pk, row_name = self_name self,
                                                    row_model = model_id m\<rparr>])\<rparr>))))))"

text \<open>
  \<^verbatim>\<open>Collection.__init__\<close> (lines 28 to 35). The check of line 30 is
  \<^verbatim>\<open>model and model_id and model.model_id != model_id\<close>.
\<close>

definition model_id_mismatch :: "EmbeddingModel option \<Rightarrow> string option \<Rightarrow> bool" where
  "model_id_mismatch model mid =
     (case model of
        None \<Rightarrow> False
      | Some m \<Rightarrow> truthy mid \<and> Some (model_id m) \<noteq> mid)"

definition Collection_init ::
  "registry \<Rightarrow> database \<Rightarrow> string \<Rightarrow> EmbeddingModel option \<Rightarrow> string option
     \<Rightarrow> (error + collection) \<times> database" where
  "Collection_init reg db nm model mid =
     (if model_id_mismatch model mid
      then (Inl (ValueError ''model_id does not match model.model_id''), db)
      else
        (case Collection_id reg
                \<lparr>self_name = nm, self_model = model, self_model_id = mid, self_id = None\<rparr> db of
           (Inl e, self, db1) \<Rightarrow> (Inl e, db1)
         | (Inr i, self, db1) \<Rightarrow> (Inr (self\<lparr>self_id := Some i\<rparr>), db1)))"

text \<open>\<^verbatim>\<open>Collection.exists\<close> (lines 85 to 94).\<close>

definition Collection_exists :: "collection \<Rightarrow> database \<Rightarrow> error + bool" where
  "Collection_exists self db =
     (case collections db of
        None \<Rightarrow> Inl OperationalError
      | Some cs \<Rightarrow> Inr (list_ex (\<lambda>row. row_name row = self_name self) cs))"

text \<open>
  \<^verbatim>\<open>Collection.count\<close> (lines 96 to 111). The scalar subquery
  \<^verbatim>\<open>select id from collections where name = ?\<close> is the key of the first row with the
  name, and \<^verbatim>\<open>NULL\<close> when there is none; \<^verbatim>\<open>collection_id = NULL\<close> holds of no row.
\<close>

definition Collection_count :: "collection \<Rightarrow> database \<Rightarrow> error + int" where
  "Collection_count self db =
     (case collections db of
        None \<Rightarrow> Inl OperationalError
      | Some cs \<Rightarrow>
          (case embeddings db of
             None \<Rightarrow> Inl OperationalError
           | Some t \<Rightarrow>
               Inr (int (length (filter
                 (\<lambda>r. Some (collection_id r) =
                       map_option row_id (find (\<lambda>row. row_name row = self_name self) cs))
                 (table_rows t))))))"

text \<open>
  \<^verbatim>\<open>Collection.embed\<close> (lines 113 to 139). The vector is computed first; the record is
  built (with \<^verbatim>\<open>self.id()\<close>) and then inserted.
\<close>

definition Collection_embed ::
  "registry \<Rightarrow> collection \<Rightarrow> database \<Rightarrow> string \<Rightarrow> string \<Rightarrow> metadata option \<Rightarrow> bool
     \<Rightarrow> (error + unit) \<times> collection \<times> database" where
  "Collection_embed reg self db ident txt md store =
     (case Collection_model reg self of
        (Inl e, self1) \<Rightarrow> (Inl e, self1, db)
      | (Inr m, self1) \<Rightarrow>
          (case Collection_id reg self1 db of
             (Inl e, self2, db1) \<Rightarrow> (Inl e, self2, db1)
           | (Inr cid, self2, db1) \<Rightarrow>
               (case insert_embedding
                       \<lparr>collection_id = cid, item_id = ident,
                        embedding = encode (embed m txt),
                        content = (if store then Some txt else None),
                        metadata = (case md of
                                      None \<Rightarrow> None
                                    | Some d \<Rightarrow> if d = [] then None else Some d)\<rparr> db1 of
                  Inl e \<Rightarrow> (Inl e, self2, db1)
                | Inr db2 \<Rightarrow> (Inr (), self2, db2))))"

text \<open>
  \<^verbatim>\<open>Collection.embed_multi\<close> and \<^verbatim>\<open>Collection.embed_multi_with_metadata\<close>
  (lines 141 to 159): the body of each is \<^verbatim>\<open>raise NotImplementedError\<close>.
\<close>

definition Collection_embed_multi ::
  "collection \<Rightarrow> database \<Rightarrow> (string \<times> string) list \<Rightarrow> bool
     \<Rightarrow> (error + unit) \<times> collection \<times> database" where
  "Collection_embed_multi self db id_text_map store = (Inl NotImplementedError, self, db)"

definition Collection_embed_multi_with_metadata ::
  "collection \<Rightarrow> database \<Rightarrow> (string \<times> string \<times> metadata) list
     \<Rightarrow> (error + unit) \<times> collection \<times> database" where
  "Collection_embed_multi_with_metadata self db id_text_metadata_map =
     (Inl NotImplementedError, self, db)"

subsection \<open>Similarity search\<close>

text \<open>
  \<^verbatim>\<open>distance_score\<close> (lines 175 to 177), the function registered with SQLite: it decodes
  the stored blob and scores it against the query vector. Whatever it raises reaches the
  caller as SQLite's \<open>OperationalError\<close>.
\<close>

definition distance_score :: "'s scorer \<Rightarrow> vector \<Rightarrow> blob \<Rightarrow> 's option" where
  "distance_score cosine_similarity vec other_encoded =
     (case decode other_encoded of
        Inl e \<Rightarrow> None
      | Inr other_vector \<Rightarrow> cosine_similarity other_vector vec)"

text \<open>
  The query of lines 191 to 195: the rows of the collection (but the one to skip, when
  \<^verbatim>\<open>skip_id\<close> is true in Python), each with its score, by descending score, cut at
  \<^verbatim>\<open>limit {number}\<close>. The collection's id is bound as the text
  \<^verbatim>\<open>str(self.id())\<close>; compared with the integer column \<^verbatim>\<open>collection_id\<close> it is
  converted back, so the comparison is that of the integers. Registering
  \<^verbatim>\<open>distance_score\<close> with the connection changes no table.

  What SQLite does with the query, in this order:
  \<^item> a missing table is an \<open>OperationalError\<close> when the statement is prepared;
  \<^item> \<^verbatim>\<open>number\<close> is written into the statement as it is, and a \<^verbatim>\<open>LIMIT\<close> outside the
    signed 64-bit integers is an \<open>IntegrityError\<close> (datatype mismatch) before any row
    is read;
  \<^item> with \<^verbatim>\<open>LIMIT 0\<close> no row is read and no score computed;
  \<^item> otherwise every selected row is scored, and a score that raises is an
    \<open>OperationalError\<close>; a table with the primary key is read through the index of the
    key, so the rows of one collection come in the byte order of their ids, and a table
    without it is read in storage order;
  \<^item> the rows are sorted by descending score, rows of equal score staying in the order
    they were read in, and cut at the limit; a negative \<^verbatim>\<open>LIMIT\<close> is no limit.
\<close>

definition where_clause :: "int \<Rightarrow> string option \<Rightarrow> embedding_row \<Rightarrow> bool" where
  "where_clause cid skip_id r \<longleftrightarrow>
     collection_id r = cid \<and> (if truthy skip_id then Some (item_id r) \<noteq> skip_id else True)"

definition selected_rows :: "embeddings_table \<Rightarrow> int \<Rightarrow> string option \<Rightarrow> embedding_row list" where
  "selected_rows t cid skip_id =
     (if primary_key t then sort_key item_id (filter (where_clause cid skip_id) (table_rows t))
      else filter (where_clause cid skip_id) (table_rows t))"

definition sqlite_int64 :: "int \<Rightarrow> bool" where
  "sqlite_int64 n \<longleftrightarrow> - (2 ^ 63) \<le> n \<and> n < 2 ^ 63"

definition select_scores ::
  "(blob \<Rightarrow> 's option) \<Rightarrow> embedding_row list \<Rightarrow> (string \<times> 's) list option" where
  "select_scores f rs = those (map (\<lambda>r. map_option (Pair (item_id r)) (f (embedding r))) rs)"

definition order_by_score_desc :: "(string \<times> 's::linorder) list \<Rightarrow> (string \<times> 's) list" where
  "order_by_score_desc xs = rev (sort_key snd (rev xs))"

definition sql_limit :: "int \<Rightarrow> 'a list \<Rightarrow> 'a list" where
  "sql_limit number xs = (if number < 0 then xs else take (nat number) xs)"

text \<open>\<^verbatim>\<open>Collection.similar_by_vector\<close> (lines 161 to 202).\<close>

definition Collection_similar_by_vector ::
  "('s::linorder) scorer \<Rightarrow> registry \<Rightarrow> collection \<Rightarrow> database \<Rightarrow> vector \<Rightarrow> int
     \<Rightarrow> string option \<Rightarrow> (error + (string \<times> 's) list) \<times> collection \<times> database" where
  "Collection_similar_by_vector cosine_similarity reg self db vec number skip_id =
     (case Collection_id reg self db of
        (Inl e, self1, db1) \<Rightarrow> (Inl e, self1, db1)
      | (Inr cid, self1, db1) \<Rightarrow>
          (case embeddings db1 of
             None \<Rightarrow> (Inl OperationalError, self1, db1)
           | Some t \<Rightarrow>
               if \<not> sqlite_int64 number then (Inl IntegrityError, self1, db1)
               else if number = 0 then (Inr [], self1, db1)
               else
                 (case select_scores (distance_score cosine_similarity vec)
                         (selected_rows t cid skip_id) of
                    None \<Rightarrow> (Inl OperationalError, self1, db1)
                  | Some scored \<Rightarrow>
                      (Inr (sql_limit number (order_by_score_desc scored)), self1, db1))))"

text \<open>
  \<^verbatim>\<open>Collection.similar_by_id\<close> (lines 204 to 226). \<^verbatim>\<open>rows_where\<close> of
  \<^verbatim>\<open>sqlite_utils\<close> yields no row for a table that does not exist, so a missing table is
  the case of no match.
\<close>

definition Collection_similar_by_id ::
  "('s::linorder) scorer \<Rightarrow> registry \<Rightarrow> collection \<Rightarrow> database \<Rightarrow> string \<Rightarrow> int
     \<Rightarrow> (error + (string \<times> 's) list) \<times> collection \<times> database" where
  "Collection_similar_by_id cosine_similarity reg self db ident number =
     (case Collection_id reg self db of
        (Inl e, self1, db1) \<Rightarrow> (Inl e, self1, db1)
      | (Inr cid, self1, db1) \<Rightarrow>
          (case embeddings db1 of
             None \<Rightarrow> (Inl (ValueError ''ID not found''), self1, db1)
           | Some t \<Rightarrow>
               (case filter (\<lambda>r. collection_id r = cid \<and> item_id r = ident) (table_rows t) of
                  [] \<Rightarrow> (Inl (ValueError ''ID not found''), self1, db1)
                | r # _ \<Rightarrow>
                    (case decode (embedding r) of
                       Inl e \<Rightarrow> (Inl e, self1, db1)
                     | Inr comparison_vector \<Rightarrow>
                         Collection_similar_by_vector cosine_similarity reg self1 db1
                           comparison_vector number (Some ident)))))"

text \<open>\<^verbatim>\<open>Collection.similar\<close> (lines 228 to 238).\<close>

definition Collection_similar ::
  "('s::linorder) scorer \<Rightarrow> registry \<Rightarrow> collection \<Rightarrow> database \<Rightarrow> string \<Rightarrow> int
     \<Rightarrow> (error + (string \<times> 's) list) \<times> collection \<times> database" where
  "Collection_similar cosine_similarity reg self db txt number =
     (case Collection_model reg self of
        (Inl e, self1) \<Rightarrow> (Inl e, self1, db)
      | (Inr m, self1) \<Rightarrow>
          Collection_similar_by_vector cosine_similarity reg self1 db (embed m txt) number None)"

section \<open>Notions used in the statements\<close>

text \<open>
  The row of \<^verbatim>\<open>collections\<close> that a lookup by name finds: the first with the name, if
  the table exists and has one.
\<close>

definition stored_row :: "database \<Rightarrow> string \<Rightarrow> collection_row option" where
  "stored_row db nm =
     (case collections db of
        None \<Rightarrow> None
      | Some cs \<Rightarrow> find (\<lambda>row. row_name row = nm) cs)"

text \<open>The record that \<open>Collection_embed\<close> builds and inserts (lines 132 to 138).\<close>

definition embedding_record ::
  "EmbeddingModel \<Rightarrow> int \<Rightarrow> string \<Rightarrow> string \<Rightarrow> metadata option \<Rightarrow> bool \<Rightarrow> embedding_row" where
  "embedding_record m cid ident txt md store =
     \<lparr>collection_id = cid, item_id = ident, embedding = encode (embed m txt),
      content = (if store then Some txt else None),
      metadata = (case md of None \<Rightarrow> None | Some d \<Rightarrow> if d = [] then None else Some d)\<rparr>"

subsection \<open>Concrete inputs\<close>

text \<open>
  A registry that knows the models \<open>A\<close> and \<open>B\<close>, each embedding any text as the
  vector \<open>[1.0, 0.0]\<close> (\<open>0x3F800000\<close> is the single-precision pattern of 1.0); a scorer
  that gives 1 to equal vectors and 0 to others; a database before any use; and a
  database with the collections \<open>docs\<close> (two embeddings, one of them stored under the
  empty string as its id) and \<open>empty\<close> (none).
\<close>

definition example_model :: "string \<Rightarrow> EmbeddingModel" where
  "example_model s = \<lparr>model_id = s, embed = (\<lambda>txt. [0x3F800000, 0])\<rparr>"

definition example_registry :: registry where
  "example_registry mid =
     (case mid of
        None \<Rightarrow> None
      | Some s \<Rightarrow> if s = ''A'' \<or> s = ''B'' then Some (example_model s) else None)"

definition example_scorer :: "int scorer" where
  "example_scorer u v = Some (if u = v then 1 else 0)"

definition empty_database :: database where
  "empty_database = \<lparr>collections = None, embeddings = None\<rparr>"

definition example_database :: database where
  "example_database =
     \<lparr>collections = Some [\<lparr>row_id = 1, row_name = ''docs'', row_model = ''A''\<rparr>,
                          \<lparr>row_id = 2, row_name = ''empty'', row_model = ''A''\<rparr>],
      embeddings = Some \<lparr>primary_key = True, table_rows =
        [\<lparr>collection_id = 1, item_id = '''', embedding = encode [0x3F800000, 0],
          content = None, metadata = None\<rparr>,
         \<lparr>collection_id = 1, item_id = ''b'', embedding = encode [0, 0x3F800000],
          content = None, metadata = None\<rparr>]\<rparr>\<rparr>"

text \<open>
  A database whose table of collections exists while that of embeddings does not, and one
  in which a stored blob has three bytes.
\<close>

definition collections_only_database :: database where
  "collections_only_database =
     \<lparr>collections = Some [\<lparr>row_id = 1, row_name = ''docs'', row_model = ''A''\<rparr>],
      embeddings = None\<rparr>"

definition corrupt_database :: database where
  "corrupt_database =
     \<lparr>collections = Some [\<lparr>row_id = 1, row_name = ''docs'', row_model = ''A''\<rparr>],
      embeddings = Some \<lparr>primary_key = True, table_rows =
        [\<lparr>collection_id = 1, item_id = ''a'', embedding = [1, 2, 3],
          content = None, metadata = None\<rparr>]\<rparr>\<rparr>"

text \<open>A handle as the constructor leaves it: the id resolved, no model instance bound.\<close>

definition example_collection :: "string \<Rightarrow> int \<Rightarrow> collection" where
  "example_collection nm i =
     \<lparr>self_name = nm, self_model = None, self_model_id = Some ''A'', self_id = Some i\<rparr>"

section \<open>The codec round trip\<close>

lemma bytes_float_float_bytes:
  "bytes_float (ucast w) (ucast (drop_bit 8 w)) (ucast (drop_bit 16 w)) (ucast (drop_bit 24 w))
     = w"
  unfolding bytes_float_def
proof (rule bit_word_eqI)
  fix n :: nat
  assume n: "n < LENGTH(32)"
  then have "n < 8 \<or> (8 \<le> n \<and> n < 16) \<or> (16 \<le> n \<and> n < 24) \<or> (24 \<le> n \<and> n < 32)"
    by auto
  then show "bit (ucast (ucast w :: 8 word) OR push_bit 8 (ucast (ucast (drop_bit 8 w) :: 8 word))
        OR push_bit 16 (ucast (ucast (drop_bit 16 w) :: 8 word))
        OR push_bit 24 (ucast (ucast (drop_bit 24 w) :: 8 word)) :: 32 word) n = bit w n"
    using n by (auto simp add: bit_or_iff bit_push_bit_iff bit_ucast_iff bit_drop_bit_eq)
qed

lemma decode_encode: "decode (encode v) = Inr v"
  by (induction v) (simp_all add: encode_def float_bytes_def bytes_float_float_bytes)

lemma length_encode: "length (encode v) = 4 * length v"
  by (induction v) (simp_all add: encode_def float_bytes_def)

text \<open>
  Claim C4. For every sequence \<open>v\<close> of single-precision floats, decoding the encoding of
  \<open>v\<close> succeeds and gives \<open>v\<close> back; the encoding is the elements' 4-byte values one
  after the other in input order (by the definition of \<open>encode\<close>), four bytes per
  element and nothing else.
\<close>

theorem decode_encode_roundtrip:
  "decode (encode v) = Inr v \<and> length (encode v) = 4 * length v"
proof (induction v)
  case Nil
  show ?case
    by (simp add: encode_def)
next
  case (Cons x v)
  have step: "encode (x # v) =
      ucast x # ucast (drop_bit 8 x) # ucast (drop_bit 16 x) # ucast (drop_bit 24 x) # encode v"
    by (simp add: encode_def float_bytes_def)
  from Cons.IH show ?case
    by (simp add: step bytes_float_float_bytes)
qed

section \<open>The unimplemented operations\<close>

text \<open>
  Claim C6. Every call of \<open>embed_multi\<close> and of \<open>embed_multi_with_metadata\<close>, whatever its
  arguments, raises \<open>NotImplementedError\<close> and leaves the handle and the database as
  they were.
\<close>

theorem embed_multi_not_implemented:
  "Collection_embed_multi self db id_text_map store = (Inl NotImplementedError, self, db)
   \<and> Collection_embed_multi_with_metadata self db id_text_metadata_map
       = (Inl NotImplementedError, self, db)"
  by (simp add: Collection_embed_multi_def Collection_embed_multi_with_metadata_def)

section \<open>Identity of a collection\<close>

lemma Collection_id_cached:
  "self_id self = Some i \<Longrightarrow> Collection_id reg self db = (Inr i, self, db)"
  by (simp add: Collection_id_def)

lemma stored_docs:
  "stored_row example_database ''docs''
     = Some \<lparr>row_id = 1, row_name = ''docs'', row_model = ''A''\<rparr>"
  by (simp add: stored_row_def example_database_def)

text \<open>
  Claim C1, as amended. When the database holds a row for the name, constructing a handle
  for it, with whatever model instance and model identifier pass the check of line 30,
  succeeds, leaves the database as it was and yields the id of the stored row; the handle's
  \<open>model_id\<close> is the stored one when no identifier was supplied (whatever model instance
  was), and the supplied identifier otherwise (line 69 replaces it only when it is
  \<^verbatim>\<open>None\<close>). Two handles for the name so agree on the id, and on the \<open>model_id\<close> when
  neither was given an identifier.
\<close>

theorem init_existing:
  assumes "stored_row db nm = Some row" and "\<not> model_id_mismatch model mid"
  shows "Collection_init reg db nm model mid =
           (Inr \<lparr>self_name = nm, self_model = model,
                 self_model_id = (case mid of None \<Rightarrow> Some (row_model row) | Some s \<Rightarrow> Some s),
                 self_id = Some (row_id row)\<rparr>, db)"
  using assms
  by (auto simp add: Collection_init_def Collection_id_def stored_row_def split: option.splits)

text \<open>
  The theorem at the collection \<open>docs\<close>, stored with model \<open>A\<close>: a handle constructed with
  an instance of model \<open>B\<close> and no identifier has id 1 and \<open>model_id\<close> \<open>A\<close>.
\<close>

theorem init_existing_witness:
  "Collection_init example_registry example_database ''docs'' (Some (example_model ''B'')) None =
     (Inr \<lparr>self_name = ''docs'', self_model = Some (example_model ''B''),
           self_model_id = Some ''A'', self_id = Some 1\<rparr>, example_database)"
  using init_existing [OF stored_docs, of "Some (example_model ''B'')" None example_registry]
  by (simp add: model_id_mismatch_def truthy_def)

text \<open>
  The claim as stated fails: of two handles for \<open>docs\<close>, the one constructed with nothing
  has \<open>model_id\<close> \<open>A\<close>, the stored one, and the one constructed with the identifier \<open>B\<close>
  keeps \<open>B\<close>.
\<close>

theorem init_model_id_counterexample:
  "Collection_init example_registry example_database ''docs'' None None =
     (Inr \<lparr>self_name = ''docs'', self_model = None,
           self_model_id = Some ''A'', self_id = Some 1\<rparr>, example_database)
   \<and> Collection_init example_registry example_database ''docs'' None (Some ''B'') =
     (Inr \<lparr>self_name = ''docs'', self_model = None,
           self_model_id = Some ''B'', self_id = Some 1\<rparr>, example_database)"
  by (simp add: Collection_init_def Collection_id_def model_id_mismatch_def
      example_database_def)

text \<open>
  Claim C10. A handle that the constructor returned has its id cached, and every later
  call of \<open>id\<close> on it, with any registry and on any database (so also one whose row was
  changed or removed), returns that id and leaves handle and database as they are.
\<close>

theorem id_cached:
  assumes "Collection_init reg db nm model mid = (Inr self, db1)"
  shows "\<exists>i. self_id self = Some i
           \<and> (\<forall>reg2 db2. Collection_id reg2 self db2 = (Inr i, self, db2))"
proof -
  from assms obtain i where "self_id self = Some i"
    by (auto simp add: Collection_init_def split: if_splits prod.splits sum.splits)
  then show ?thesis
    by (simp add: Collection_id_cached)
qed

theorem id_cached_witness:
  "\<forall>reg2 db2. Collection_id reg2
       \<lparr>self_name = ''docs'', self_model = None, self_model_id = Some ''A'', self_id = Some 1\<rparr> db2
     = (Inr 1, \<lparr>self_name = ''docs'', self_model = None, self_model_id = Some ''A'',
                self_id = Some 1\<rparr>, db2)"
proof -
  have "Collection_init example_registry example_database ''docs'' None None =
     (Inr \<lparr>self_name = ''docs'', self_model = None,
           self_model_id = Some ''A'', self_id = Some 1\<rparr>, example_database)"
    by (simp add: Collection_init_def Collection_id_def model_id_mismatch_def
        example_database_def)
  from id_cached [OF this] show ?thesis
    by simp
qed

section \<open>Model resolution at construction\<close>

text \<open>
  Claim C9. Constructing a handle for a name with no row in the database, with neither a
  model instance nor a model identifier, when the registry resolves no model for
  \<^verbatim>\<open>None\<close>, raises the \<open>ValueError\<close> of \<open>Collection_model\<close> from the constructor. The
  tables have been created by then if they were missing, and no row has been inserted.
\<close>

theorem init_no_model:
  assumes "reg None = None" and "stored_row db nm = None"
  shows "Collection_init reg db nm None None =
           (Inl (ValueError ''No model_id specified and no model found with that name''),
            if collections db = None then embeddings_migrations_apply db else db)"
  using assms
  by (auto simp add: Collection_init_def Collection_id_def Collection_model_def
      model_id_mismatch_def stored_row_def embeddings_migrations_apply_def Let_def
      split: option.splits)

theorem init_no_model_witness:
  "example_registry None = None \<and> stored_row empty_database ''new'' = None
   \<and> Collection_init example_registry empty_database ''new'' None None =
       (Inl (ValueError ''No model_id specified and no model found with that name''),
        \<lparr>collections = Some [], embeddings = Some \<lparr>primary_key = True, table_rows = []\<rparr>\<rparr>)"
proof -
  have r: "example_registry None = None"
    by (simp add: example_registry_def)
  have s: "stored_row empty_database ''new'' = None"
    by (simp add: stored_row_def empty_database_def)
  from init_no_model [of example_registry empty_database "''new''"] r s show ?thesis
    by (simp add: empty_database_def embeddings_migrations_apply_def)
qed

text \<open>
  The check of line 30 where it works: an instance and a non-empty identifier that differ
  are refused before anything else happens, and no construction that passes the check
  raises that error.
\<close>

lemma init_mismatch:
  assumes "s \<noteq> []" and "model_id m \<noteq> s"
  shows "Collection_init reg db nm (Some m) (Some s)
           = (Inl (ValueError ''model_id does not match model.model_id''), db)"
  using assms by (simp add: Collection_init_def model_id_mismatch_def truthy_def)

lemma init_no_mismatch_error:
  assumes "\<not> model_id_mismatch model mid"
  shows "fst (Collection_init reg db nm model mid)
           \<noteq> Inl (ValueError ''model_id does not match model.model_id'')"
  using assms
  by (auto simp add: Collection_init_def Collection_id_def Collection_model_def Let_def
      split: option.splits prod.splits sum.splits if_splits)

text \<open>
  Claim C8, at the input where the code departs from it. The identifier is tested for
  truth, not against \<^verbatim>\<open>None\<close>, so the empty string counts as no identifier: a handle
  constructed with an instance of model \<open>B\<close> and the identifier \<open>''''\<close> is returned,
  holding both, although the two identifiers differ.
\<close>

theorem init_empty_model_id:
  "Collection_init example_registry example_database ''docs''
       (Some (example_model ''B'')) (Some '''') =
     (Inr \<lparr>self_name = ''docs'', self_model = Some (example_model ''B''),
           self_model_id = Some '''', self_id = Some 1\<rparr>, example_database)
   \<and> model_id (example_model ''B'') \<noteq> ''''"
  by (simp add: Collection_init_def Collection_id_def model_id_mismatch_def truthy_def
      example_database_def example_model_def)

section \<open>Counting\<close>

text \<open>
  Claim C3. When both tables exist, \<open>count\<close> returns 0, and raises nothing, for a name
  with no row in \<^verbatim>\<open>collections\<close>, and for a name whose collection has no row in
  \<^verbatim>\<open>embeddings\<close>.
\<close>

theorem count_zero:
  assumes "collections db = Some cs" and "embeddings db = Some t"
  shows "(stored_row db (self_name self) = None \<longrightarrow> Collection_count self db = Inr 0)
       \<and> (\<forall>row. stored_row db (self_name self) = Some row
                  \<and> \<not> list_ex (\<lambda>r. collection_id r = row_id row) (table_rows t)
              \<longrightarrow> Collection_count self db = Inr 0)"
  using assms
  by (auto simp add: Collection_count_def stored_row_def list_ex_iff filter_empty_conv)

lemma example_table:
  "embeddings example_database = Some \<lparr>primary_key = True, table_rows =
        [\<lparr>collection_id = 1, item_id = '''', embedding = encode [0x3F800000, 0],
          content = None, metadata = None\<rparr>,
         \<lparr>collection_id = 1, item_id = ''b'', embedding = encode [0, 0x3F800000],
          content = None, metadata = None\<rparr>]\<rparr>"
  by (simp add: example_database_def)

text \<open>
  The theorem at the example database: the name \<open>other\<close> has no row, and the collection
  \<open>empty\<close> has no embedding.
\<close>

theorem count_zero_witness:
  "stored_row example_database ''other'' = None
   \<and> Collection_count (example_collection ''other'' 3) example_database = Inr 0
   \<and> stored_row example_database ''empty''
        = Some \<lparr>row_id = 2, row_name = ''empty'', row_model = ''A''\<rparr>
   \<and> Collection_count (example_collection ''empty'' 2) example_database = Inr 0"
proof -
  have cs: "collections example_database =
              Some [\<lparr>row_id = 1, row_name = ''docs'', row_model = ''A''\<rparr>,
                    \<lparr>row_id = 2, row_name = ''empty'', row_model = ''A''\<rparr>]"
    by (simp add: example_database_def)
  have other: "stored_row example_database ''other'' = None"
    by (simp add: stored_row_def example_database_def)
  have empty: "stored_row example_database ''empty''
        = Some \<lparr>row_id = 2, row_name = ''empty'', row_model = ''A''\<rparr>"
    by (simp add: stored_row_def example_database_def)
  from count_zero [OF cs example_table, of "example_collection ''other'' 3"] other
  have "Collection_count (example_collection ''other'' 3) example_database = Inr 0"
    by (simp add: example_collection_def)
  moreover from count_zero [OF cs example_table, of "example_collection ''empty'' 2"] empty
  have "Collection_count (example_collection ''empty'' 2) example_database = Inr 0"
    by (simp add: example_collection_def)
  ultimately show ?thesis
    using other empty by simp
qed

section \<open>Uniqueness of an embedding's id\<close>

lemma Collection_model_bound:
  "Collection_model reg self = (Inr m, self1) \<Longrightarrow> self_model self1 = Some m"
  by (auto simp add: Collection_model_def split: option.splits)

lemma Collection_id_sets_id:
  "Collection_id reg self db = (Inr i, self1, db1) \<Longrightarrow> self_id self1 = Some i"
  by (auto simp add: Collection_id_def Collection_model_def Let_def
      split: option.splits sum.splits prod.splits if_splits)

lemma Collection_id_keeps_model:
  "Collection_id reg self db = (r, self1, db1) \<Longrightarrow> self_model self = Some m
     \<Longrightarrow> self_model self1 = Some m"
  by (auto simp add: Collection_id_def Collection_model_def Let_def
      split: option.splits sum.splits prod.splits if_splits)

lemma Collection_id_keeps_embeddings:
  "Collection_id reg self db = (r, self1, db1) \<Longrightarrow> embeddings db = Some t
     \<Longrightarrow> embeddings db1 = Some t"
  by (auto simp add: Collection_id_def Collection_model_def Let_def
      embeddings_migrations_apply_def split: option.splits sum.splits prod.splits if_splits)

lemma Collection_embed_bound:
  assumes "self_model self = Some m" and "self_id self = Some cid"
  shows "Collection_embed reg self db ident txt md store =
           (case insert_embedding (embedding_record m cid ident txt md store) db of
              Inl e \<Rightarrow> (Inl e, self, db)
            | Inr db2 \<Rightarrow> (Inr (), self, db2))"
  using assms
  by (simp add: Collection_embed_def Collection_model_def Collection_id_cached
      embedding_record_def)

text \<open>
  The constructor on a database without tables creates both, the table of embeddings with
  its primary key.
\<close>

lemma init_creates_keyed_table:
  assumes "collections db = None" and "embeddings db = None"
      and "Collection_init reg db nm model mid = (Inr self, db1)"
  shows "\<exists>t. embeddings db1 = Some t \<and> primary_key t"
  using assms
  by (auto simp add: Collection_init_def Collection_id_def Collection_model_def Let_def
      embeddings_migrations_apply_def split: option.splits sum.splits prod.splits if_splits)

text \<open>
  Claim C5, as amended. Let the table of embeddings exist with the primary key of the
  storage layout, and let a call of \<open>embed\<close> under an id succeed. Then embedding anything
  under the same id through the handle raises \<open>IntegrityError\<close> and leaves the database
  as the first call left it: the table still has its key, and the rows of the collection
  with that id are exactly the one record the first call wrote.
\<close>

theorem embed_same_id_twice:
  assumes "embeddings db = Some t" and "primary_key t"
      and "Collection_embed reg self db ident txt md store = (Inr (), self1, db1)"
  shows "Collection_embed reg self1 db1 ident txt2 md2 store2 = (Inl IntegrityError, self1, db1)
       \<and> (\<exists>m cid t1. fst (Collection_model reg self) = Inr m \<and> self_id self1 = Some cid
             \<and> embeddings db1 = Some t1 \<and> primary_key t1
             \<and> filter (\<lambda>r. collection_id r = cid \<and> item_id r = ident) (table_rows t1)
                 = [embedding_record m cid ident txt md store])"
proof -
  from assms(3) obtain m selfm cid dbi
    where m: "Collection_model reg self = (Inr m, selfm)"
      and i: "Collection_id reg selfm db = (Inr cid, self1, dbi)"
      and ins: "insert_embedding (embedding_record m cid ident txt md store) dbi = Inr db1"
    by (auto simp add: Collection_embed_def embedding_record_def
        split: prod.splits sum.splits)
  let ?r = "embedding_record m cid ident txt md store"
  have ti: "embeddings dbi = Some t"
    using i assms(1) by (rule Collection_id_keeps_embeddings)
  from ins ti assms(2) have fresh: "\<not> list_ex (same_key ?r) (table_rows t)"
    and db1: "db1 = dbi\<lparr>embeddings := Some (t\<lparr>table_rows := table_rows t @ [?r]\<rparr>)\<rparr>"
    by (auto simp add: insert_embedding_def split: if_splits)
  have m1: "self_model self1 = Some m"
    using i Collection_model_bound [OF m] by (rule Collection_id_keeps_model)
  have id1: "self_id self1 = Some cid"
    using i by (rule Collection_id_sets_id)
  have "insert_embedding (embedding_record m cid ident txt2 md2 store2) db1 = Inl IntegrityError"
    using assms(2)
    by (simp add: db1 insert_embedding_def same_key_def embedding_record_def)
  then have second:
    "Collection_embed reg self1 db1 ident txt2 md2 store2 = (Inl IntegrityError, self1, db1)"
    by (simp add: Collection_embed_bound [OF m1 id1])
  have "filter (\<lambda>r. collection_id r = cid \<and> item_id r = ident) (table_rows t) = []"
    using fresh
    by (auto simp add: list_ex_iff filter_empty_conv same_key_def embedding_record_def)
  then have kept:
    "filter (\<lambda>r. collection_id r = cid \<and> item_id r = ident)
       (table_rows (t\<lparr>table_rows := table_rows t @ [?r]\<rparr>)) = [?r]"
    by (simp add: embedding_record_def)
  from second m id1 kept assms(2) show ?thesis
    by (simp add: db1)
qed

text \<open>
  The theorem at the collection \<open>docs\<close>: the text \<open>hello\<close> is embedded under the id
  \<open>c\<close>, and a second call with the same id, another text and metadata, is refused.
\<close>

theorem embed_same_id_twice_witness:
  "Collection_embed example_registry (example_collection ''docs'' 1) example_database
       ''c'' ''hello'' None False
     = (Inr (),
        (example_collection ''docs'' 1)\<lparr>self_model := Some (example_model ''A'')\<rparr>,
        example_database\<lparr>embeddings := Some \<lparr>primary_key = True, table_rows =
        [\<lparr>collection_id = 1, item_id = '''', embedding = encode [0x3F800000, 0],
          content = None, metadata = None\<rparr>,
         \<lparr>collection_id = 1, item_id = ''b'', embedding = encode [0, 0x3F800000],
          content = None, metadata = None\<rparr>,
         \<lparr>collection_id = 1, item_id = ''c'', embedding = encode [0x3F800000, 0],
          content = None, metadata = None\<rparr>]\<rparr>\<rparr>)
   \<and> Collection_embed example_registry
        ((example_collection ''docs'' 1)\<lparr>self_model := Some (example_model ''A'')\<rparr>)
        (example_database\<lparr>embeddings := Some \<lparr>primary_key = True, table_rows =
        [\<lparr>collection_id = 1, item_id = '''', embedding = encode [0x3F800000, 0],
          content = None, metadata = None\<rparr>,
         \<lparr>collection_id = 1, item_id = ''b'', embedding = encode [0, 0x3F800000],
          content = None, metadata = None\<rparr>,
         \<lparr>collection_id = 1, item_id = ''c'', embedding = encode [0x3F800000, 0],
          content = None, metadata = None\<rparr>]\<rparr>\<rparr>)
        ''c'' ''bye'' (Some [(''k'', ''v'')]) True
     = (Inl IntegrityError,
        (example_collection ''docs'' 1)\<lparr>self_model := Some (example_model ''A'')\<rparr>,
        example_database\<lparr>embeddings := Some \<lparr>primary_key = True, table_rows =
        [\<lparr>collection_id = 1, item_id = '''', embedding = encode [0x3F800000, 0],
          content = None, metadata = None\<rparr>,
         \<lparr>collection_id = 1, item_id = ''b'', embedding = encode [0, 0x3F800000],
          content = None, metadata = None\<rparr>,
         \<lparr>collection_id = 1, item_id = ''c'', embedding = encode [0x3F800000, 0],
          content = None, metadata = None\<rparr>]\<rparr>\<rparr>)"
proof -
  have k: "primary_key \<lparr>primary_key = True, table_rows =
        [\<lparr>collection_id = 1, item_id = '''', embedding = encode [0x3F800000, 0],
          content = None, metadata = None\<rparr>,
         \<lparr>collection_id = 1, item_id = ''b'', embedding = encode [0, 0x3F800000],
          content = None, metadata = None\<rparr>]\<rparr>"
    by simp
  have first: "Collection_embed example_registry (example_collection ''docs'' 1) example_database
       ''c'' ''hello'' None False
     = (Inr (),
        (example_collection ''docs'' 1)\<lparr>self_model := Some (example_model ''A'')\<rparr>,
        example_database\<lparr>embeddings := Some \<lparr>primary_key = True, table_rows =
        [\<lparr>collection_id = 1, item_id = '''', embedding = encode [0x3F800000, 0],
          content = None, metadata = None\<rparr>,
         \<lparr>collection_id = 1, item_id = ''b'', embedding = encode [0, 0x3F800000],
          content = None, metadata = None\<rparr>,
         \<lparr>collection_id = 1, item_id = ''c'', embedding = encode [0x3F800000, 0],
          content = None, metadata = None\<rparr>]\<rparr>\<rparr>)"
    by (simp add: Collection_embed_def Collection_model_def Collection_id_def
        example_collection_def example_registry_def example_model_def insert_embedding_def
        example_table same_key_def)
  from embed_same_id_twice [OF example_table k first, of "''bye''" "Some [(''k'', ''v'')]" True]
    first show ?thesis
    by simp
qed

text \<open>
  The claim as stated fails on a database whose table of collections exists while that of
  embeddings does not. The constructor finds the collection and runs no migration (line
  63 looks at \<^verbatim>\<open>collections\<close> only); the first \<open>embed\<close> creates the table of embeddings
  without a key; the second \<open>embed\<close> under the same id succeeds, and the table holds two
  rows with that id.
\<close>

theorem embed_keyless_counterexample:
  "Collection_init example_registry collections_only_database ''docs'' None None
     = (Inr (example_collection ''docs'' 1), collections_only_database)
   \<and> Collection_embed example_registry (example_collection ''docs'' 1)
        collections_only_database ''x'' ''hello'' None False
     = (Inr (),
        (example_collection ''docs'' 1)\<lparr>self_model := Some (example_model ''A'')\<rparr>,
        collections_only_database\<lparr>embeddings := Some \<lparr>primary_key = False, table_rows =
          [\<lparr>collection_id = 1, item_id = ''x'', embedding = encode [0x3F800000, 0],
            content = None, metadata = None\<rparr>]\<rparr>\<rparr>)
   \<and> Collection_embed example_registry
        ((example_collection ''docs'' 1)\<lparr>self_model := Some (example_model ''A'')\<rparr>)
        (collections_only_database\<lparr>embeddings := Some \<lparr>primary_key = False, table_rows =
          [\<lparr>collection_id = 1, item_id = ''x'', embedding = encode [0x3F800000, 0],
            content = None, metadata = None\<rparr>]\<rparr>\<rparr>)
        ''x'' ''bye'' None True
     = (Inr (),
        (example_collection ''docs'' 1)\<lparr>self_model := Some (example_model ''A'')\<rparr>,
        collections_only_database\<lparr>embeddings := Some \<lparr>primary_key = False, table_rows =
          [\<lparr>collection_id = 1, item_id = ''x'', embedding = encode [0x3F800000, 0],
            content = None, metadata = None\<rparr>,
           \<lparr>collection_id = 1, item_id = ''x'', embedding = encode [0x3F800000, 0],
            content = Some ''bye'', metadata = None\<rparr>]\<rparr>\<rparr>)"
  by (simp add: Collection_init_def Collection_id_def model_id_mismatch_def
      Collection_embed_def Collection_model_def insert_embedding_def
      collections_only_database_def example_collection_def example_registry_def
      example_model_def)

section \<open>Similarity search\<close>

lemma those_map_Some:
  "(\<And>x. x \<in> set xs \<Longrightarrow> g x \<noteq> None) \<Longrightarrow> those (map g xs) = Some (map (\<lambda>x. the (g x)) xs)"
  by (induction xs) (auto split: option.splits)

lemma those_map_fst:
  "those (map (\<lambda>r. map_option (Pair (k r)) (f r)) rs) = Some ys \<Longrightarrow> map fst ys = map k rs"
  by (induction rs arbitrary: ys) (auto split: option.splits)

lemma select_scores_total:
  assumes "\<And>r. r \<in> set rs \<Longrightarrow> f (embedding r) \<noteq> None"
  shows "\<exists>ys. select_scores f rs = Some ys"
  unfolding select_scores_def
  using assms by (subst those_map_Some) auto

lemma select_scores_ids:
  "select_scores f rs = Some ys \<Longrightarrow> map fst ys = map item_id rs"
  unfolding select_scores_def by (rule those_map_fst)

lemma select_scores_length:
  "select_scores f rs = Some ys \<Longrightarrow> length ys = length rs"
  using select_scores_ids [of f rs ys] by (metis length_map)

lemma set_selected_rows:
  "set (selected_rows t cid skip_id) = {r \<in> set (table_rows t). where_clause cid skip_id r}"
  by (auto simp add: selected_rows_def)

lemma length_selected_rows:
  "length (selected_rows t cid skip_id)
     = length (filter (where_clause cid skip_id) (table_rows t))"
  by (simp add: selected_rows_def)

lemma sorted_order_by_score_desc:
  "sorted_wrt (\<lambda>a b. snd b \<le> snd a) (order_by_score_desc xs)"
proof -
  have "sorted (map snd (sort_key snd (rev xs)))"
    by (rule sorted_sort_key)
  then have "sorted_wrt (\<lambda>a b. snd a \<le> snd b) (sort_key snd (rev xs))"
    by (simp add: sorted_map)
  then show ?thesis
    by (simp add: order_by_score_desc_def sorted_wrt_rev)
qed

lemma set_order_by_score_desc: "set (order_by_score_desc xs) = set xs"
  by (simp add: order_by_score_desc_def)

lemma length_order_by_score_desc: "length (order_by_score_desc xs) = length xs"
  by (simp add: order_by_score_desc_def)

lemma set_sql_limit: "set (sql_limit number xs) \<subseteq> set xs"
  by (auto simp add: sql_limit_def dest: in_set_takeD)

lemma length_sql_limit:
  "int (length (sql_limit number xs))
     = (if number < 0 then int (length xs) else min number (int (length xs)))"
  by (auto simp add: sql_limit_def min_def)

lemma sorted_sql_limit:
  "sorted_wrt P xs \<Longrightarrow> sorted_wrt P (sql_limit number xs)"
  by (simp add: sql_limit_def)

lemma example_scores:
  "distance_score example_scorer [0x3F800000, 0] (encode [0x3F800000, 0]) = Some 1"
  "distance_score example_scorer [0x3F800000, 0] (encode [0, 0x3F800000]) = Some 0"
  by (simp_all add: distance_score_def decode_encode example_scorer_def)

lemma example_selected_rows:
  "\<not> truthy skip_id \<Longrightarrow>
   selected_rows \<lparr>primary_key = True, table_rows =
        [\<lparr>collection_id = 1, item_id = '''', embedding = encode [0x3F800000, 0],
          content = None, metadata = None\<rparr>,
         \<lparr>collection_id = 1, item_id = ''b'', embedding = encode [0, 0x3F800000],
          content = None, metadata = None\<rparr>]\<rparr> 1 skip_id
     = [\<lparr>collection_id = 1, item_id = '''', embedding = encode [0x3F800000, 0],
          content = None, metadata = None\<rparr>,
         \<lparr>collection_id = 1, item_id = ''b'', embedding = encode [0, 0x3F800000],
          content = None, metadata = None\<rparr>]"
  by (simp add: selected_rows_def where_clause_def sort_key_def)

text \<open>
  Claim C7, as amended. Let the handle have its id resolved, the table of embeddings
  exist and \<open>number\<close> be a signed 64-bit integer; unless \<open>number\<close> is 0, let every
  selected row have a score against the query vector. Then \<open>similar_by_vector\<close> returns
  a sequence of pairs and leaves handle and database as they are. The sequence is sorted
  by descending score. Its length is the number of selected rows when \<open>number\<close> is
  negative (no limit), and the smaller of \<open>number\<close> and the number of selected rows
  otherwise. It is empty when the collection has no embedding.
\<close>

theorem similar_by_vector_result:
  assumes "self_id self = Some cid" and "embeddings db = Some t"
      and "- (2 ^ 63) \<le> number" and "number < 2 ^ 63"
      and "number \<noteq> 0 \<longrightarrow>
             (\<forall>r \<in> set (table_rows t).
                where_clause cid skip_id r \<longrightarrow> distance_score cos vec (embedding r) \<noteq> None)"
  shows "\<exists>res. Collection_similar_by_vector cos reg self db vec number skip_id
                 = (Inr res, self, db)
           \<and> int (length res) =
               (if number < 0
                then int (length (filter (where_clause cid skip_id) (table_rows t)))
                else min number (int (length (filter (where_clause cid skip_id) (table_rows t)))))
           \<and> sorted_wrt (\<lambda>a b. snd b \<le> snd a) res
           \<and> (\<not> list_ex (\<lambda>r. collection_id r = cid) (table_rows t) \<longrightarrow> res = [])"
proof (cases "number = 0")
  case True
  with assms(1-4) have
    "Collection_similar_by_vector cos reg self db vec number skip_id = (Inr [], self, db)"
    by (simp add: Collection_similar_by_vector_def Collection_id_cached sqlite_int64_def)
  with True show ?thesis
    by simp
next
  case False
  let ?rs = "selected_rows t cid skip_id"
  from False assms(5) have "\<And>r. r \<in> set ?rs \<Longrightarrow> distance_score cos vec (embedding r) \<noteq> None"
    by (simp add: set_selected_rows)
  then obtain scored
    where scored: "select_scores (distance_score cos vec) ?rs = Some scored"
    using select_scores_total [of ?rs "distance_score cos vec"] by auto
  let ?res = "sql_limit number (order_by_score_desc scored)"
  have run: "Collection_similar_by_vector cos reg self db vec number skip_id
               = (Inr ?res, self, db)"
    using assms(1-4) False scored
    by (simp add: Collection_similar_by_vector_def Collection_id_cached sqlite_int64_def)
  have n: "length scored = length (filter (where_clause cid skip_id) (table_rows t))"
    using select_scores_length [OF scored] by (simp add: length_selected_rows)
  have len: "int (length ?res) =
               (if number < 0
                then int (length (filter (where_clause cid skip_id) (table_rows t)))
                else min number (int (length (filter (where_clause cid skip_id) (table_rows t)))))"
    by (simp add: length_sql_limit length_order_by_score_desc n)
  have srt: "sorted_wrt (\<lambda>a b. snd b \<le> snd a) ?res"
    by (intro sorted_sql_limit sorted_order_by_score_desc)
  have emp: "\<not> list_ex (\<lambda>r. collection_id r = cid) (table_rows t) \<longrightarrow> ?res = []"
  proof
    assume "\<not> list_ex (\<lambda>r. collection_id r = cid) (table_rows t)"
    then have "filter (where_clause cid skip_id) (table_rows t) = []"
      by (auto simp add: list_ex_iff filter_empty_conv where_clause_def)
    with n have "scored = []"
      by simp
    then show "?res = []"
      by (simp add: sql_limit_def order_by_score_desc_def)
  qed
  from run len srt emp show ?thesis by blast
qed

text \<open>
  The theorem at the example database, for the query \<open>[1.0, 0.0]\<close> and \<open>number = 1\<close>:
  the collection \<open>docs\<close> gives its best match, the collection \<open>empty\<close> gives nothing.
\<close>

theorem similar_by_vector_result_witness:
  "Collection_similar_by_vector example_scorer example_registry (example_collection ''docs'' 1)
       example_database [0x3F800000, 0] 1 None
     = (Inr [('''', 1)], example_collection ''docs'' 1, example_database)
   \<and> Collection_similar_by_vector example_scorer example_registry (example_collection ''empty'' 2)
       example_database [0x3F800000, 0] 1 None
     = (Inr [], example_collection ''empty'' 2, example_database)"
proof -
  have sc: "(1 :: int) \<noteq> 0 \<longrightarrow> (\<forall>r \<in> set (table_rows \<lparr>primary_key = True, table_rows =
        [\<lparr>collection_id = 1, item_id = '''', embedding = encode [0x3F800000, 0],
          content = None, metadata = None\<rparr>,
         \<lparr>collection_id = 1, item_id = ''b'', embedding = encode [0, 0x3F800000],
          content = None, metadata = None\<rparr>]\<rparr>).
      where_clause cid None r \<longrightarrow>
        distance_score example_scorer [0x3F800000, 0] (embedding r) \<noteq> None)" for cid
    by (simp add: example_scores)
  have lo: "- (2 ^ 63) \<le> (1 :: int)" and hi: "(1 :: int) < 2 ^ 63"
    by simp_all
  have a: "Collection_similar_by_vector example_scorer example_registry
       (example_collection ''docs'' 1) example_database [0x3F800000, 0] 1 None
     = (Inr [('''', 1)], example_collection ''docs'' 1, example_database)"
    using similar_by_vector_result [OF _ example_table lo hi sc,
        of "example_collection ''docs'' 1" 1 example_registry]
    by (simp add: Collection_similar_by_vector_def Collection_id_def example_collection_def
      example_table sqlite_int64_def example_selected_rows truthy_def select_scores_def
      example_scores
      order_by_score_desc_def sort_key_def sql_limit_def)
  have b: "Collection_similar_by_vector example_scorer example_registry
       (example_collection ''empty'' 2) example_database [0x3F800000, 0] 1 None
     = (Inr [], example_collection ''empty'' 2, example_database)"
    using similar_by_vector_result [OF _ example_table lo hi sc,
        of "example_collection ''empty'' 2" 2 example_registry]
    by (auto simp add: example_collection_def)
  from a b show ?thesis by simp
qed

text \<open>
  The claim as stated fails in four ways. With \<open>number = -1\<close> both embeddings of \<open>docs\<close>
  are returned: the code takes a negative \<open>number\<close> for no limit. With
  \<open>number = 2\<^sup>6\<^sup>3\<close> the empty collection gives an \<open>IntegrityError\<close>, not an empty
  sequence. On a database without the table of embeddings the search is an
  \<open>OperationalError\<close>. And a stored blob of three bytes, which no vector decodes from,
  makes the search an \<open>OperationalError\<close> as well.
\<close>

theorem similar_by_vector_counterexample:
  "Collection_similar_by_vector example_scorer example_registry (example_collection ''docs'' 1)
       example_database [0x3F800000, 0] (- 1) None
     = (Inr [('''', 1), (''b'', 0)], example_collection ''docs'' 1, example_database)
   \<and> \<not> int (length [('''', 1 :: int), (''b'', 0)]) \<le> - 1
   \<and> Collection_similar_by_vector example_scorer example_registry (example_collection ''empty'' 2)
       example_database [0x3F800000, 0] 9223372036854775808 None
     = (Inl IntegrityError, example_collection ''empty'' 2, example_database)
   \<and> Collection_similar_by_vector example_scorer example_registry (example_collection ''docs'' 1)
       collections_only_database [0x3F800000, 0] 5 None
     = (Inl OperationalError, example_collection ''docs'' 1, collections_only_database)
   \<and> Collection_similar_by_vector example_scorer example_registry (example_collection ''docs'' 1)
       corrupt_database [0x3F800000, 0] 5 None
     = (Inl OperationalError, example_collection ''docs'' 1, corrupt_database)"
proof (intro conjI)
  show "Collection_similar_by_vector example_scorer example_registry
       (example_collection ''docs'' 1) example_database [0x3F800000, 0] (- 1) None
     = (Inr [('''', 1), (''b'', 0)], example_collection ''docs'' 1, example_database)"
    by (simp add: Collection_similar_by_vector_def Collection_id_def example_collection_def
      example_table sqlite_int64_def example_selected_rows truthy_def select_scores_def
      example_scores
      order_by_score_desc_def sort_key_def sql_limit_def)
  show "\<not> int (length [('''', 1 :: int), (''b'', 0)]) \<le> - 1"
    by simp
  show "Collection_similar_by_vector example_scorer example_registry
       (example_collection ''empty'' 2) example_database [0x3F800000, 0]
       9223372036854775808 None
     = (Inl IntegrityError, example_collection ''empty'' 2, example_database)"
    by (simp add: Collection_similar_by_vector_def Collection_id_def example_collection_def
      example_table sqlite_int64_def)
  show "Collection_similar_by_vector example_scorer example_registry
       (example_collection ''docs'' 1) collections_only_database [0x3F800000, 0] 5 None
     = (Inl OperationalError, example_collection ''docs'' 1, collections_only_database)"
    by (simp add: Collection_similar_by_vector_def Collection_id_def example_collection_def
      collections_only_database_def)
  show "Collection_similar_by_vector example_scorer example_registry
       (example_collection ''docs'' 1) corrupt_database [0x3F800000, 0] 5 None
     = (Inl OperationalError, example_collection ''docs'' 1, corrupt_database)"
    by (simp add: Collection_similar_by_vector_def Collection_id_def example_collection_def
      corrupt_database_def sqlite_int64_def selected_rows_def where_clause_def truthy_def
      sort_key_def select_scores_def distance_score_def)
qed

text \<open>
  Outside the conditions of the theorem: a \<open>number\<close> that is no signed 64-bit integer
  is an \<open>IntegrityError\<close> whatever the table holds, and a missing table of embeddings
  is an \<open>OperationalError\<close>.
\<close>

lemma similar_by_vector_limit_out_of_range:
  assumes "self_id self = Some cid" and "embeddings db = Some t"
      and "number < - (2 ^ 63) \<or> 2 ^ 63 \<le> number"
  shows "Collection_similar_by_vector cos reg self db vec number skip_id
           = (Inl IntegrityError, self, db)"
  using assms
  by (auto simp add: Collection_similar_by_vector_def Collection_id_cached sqlite_int64_def)

lemma similar_by_vector_no_table:
  assumes "self_id self = Some cid" and "embeddings db = None"
  shows "Collection_similar_by_vector cos reg self db vec number skip_id
           = (Inl OperationalError, self, db)"
  using assms
  by (simp add: Collection_similar_by_vector_def Collection_id_cached)

subsection \<open>Exclusion of the queried id\<close>

text \<open>
  Where the exclusion works: a non-empty id given as \<^verbatim>\<open>skip_id\<close> is in no result, so
  \<open>similar_by_id\<close> of a non-empty id never returns that id.
\<close>

lemma similar_by_vector_skips:
  assumes "Collection_similar_by_vector cos reg self db vec number (Some ident)
             = (Inr res, self1, db1)"
      and "ident \<noteq> []"
  shows "ident \<notin> fst ` set res"
proof (cases "res = []")
  case True
  then show ?thesis by simp
next
  case False
  with assms(1) obtain cid and t :: embeddings_table and scored where
    scored: "select_scores (distance_score cos vec) (selected_rows t cid (Some ident))
               = Some scored"
    and res: "res = sql_limit number (order_by_score_desc scored)"
    by (auto simp add: Collection_similar_by_vector_def
        split: prod.splits sum.splits option.splits if_splits)
  have "fst ` set scored = item_id ` set (selected_rows t cid (Some ident))"
    using select_scores_ids [OF scored] by (metis set_map)
  then have "ident \<notin> fst ` set scored"
    using assms(2) by (auto simp add: set_selected_rows where_clause_def truthy_def)
  moreover have "set res \<subseteq> set scored"
    using set_sql_limit [of number "order_by_score_desc scored"]
    by (simp add: res set_order_by_score_desc)
  ultimately show ?thesis by blast
qed

lemma similar_by_id_excludes:
  assumes "Collection_similar_by_id cos reg self db ident number = (Inr res, self1, db1)"
      and "ident \<noteq> []"
  shows "ident \<notin> fst ` set res"
proof -
  from assms(1) obtain self2 db2 v where
    "Collection_similar_by_vector cos reg self2 db2 v number (Some ident) = (Inr res, self1, db1)"
    by (auto simp add: Collection_similar_by_id_def
        split: prod.splits sum.splits option.splits list.splits)
  then show ?thesis
    using assms(2) by (rule similar_by_vector_skips)
qed

text \<open>
  Claim C2, at the input where the code departs from it. \<^verbatim>\<open>skip_id\<close> is tested for
  truth, not against \<^verbatim>\<open>None\<close>, so the empty string skips nothing: \<open>similar_by_id\<close> of
  the record stored under the empty string returns that record itself, first, with the
  score of a perfect match.
\<close>

theorem similar_by_id_empty_id:
  "Collection_similar_by_id example_scorer example_registry (example_collection ''docs'' 1)
       example_database '''' 5
     = (Inr [('''', 1), (''b'', 0)], example_collection ''docs'' 1, example_database)"
  by (simp add: Collection_similar_by_id_def Collection_similar_by_vector_def
      Collection_id_def example_collection_def decode_encode
      example_table sqlite_int64_def example_selected_rows truthy_def select_scores_def
      example_scores
      order_by_score_desc_def sort_key_def sql_limit_def)

end
